theory Spec2Isabelle
  imports Main
begin

section \<open>JavaScript values\<close>

text \<open>
  The SDK (\<^verbatim>\<open>src/index.ts\<close>) reads decoded JSON by duck typing, tests request
  bodies for truthiness and stringifies query values. The values it meets are modelled
  by one datatype. Numbers are the integer-valued ones (page numbers, counts, HTTP
  statuses); an object is the list of its own properties in enumeration order, with
  distinct keys; strings are byte strings (UTF-8).
\<close>

datatype jsval =
    JUndefined
  | JNull
  | JBool bool
  | JNum int
  | JStr string
  | JArr "jsval list"
  | JObj "(string \<times> jsval) list"

text \<open>Truthiness, as \<^verbatim>\<open>if (v)\<close>, \<^verbatim>\<open>!v\<close> and \<^verbatim>\<open>v || d\<close> test it.\<close>

fun truthy :: "jsval \<Rightarrow> bool" where
  "truthy JUndefined = False"
| "truthy JNull = False"
| "truthy (JBool b) = b"
| "truthy (JNum n) = (n \<noteq> 0)"
| "truthy (JStr s) = (s \<noteq> [])"
| "truthy (JArr xs) = True"
| "truthy (JObj ps) = True"

text \<open>Decimal digits of a number, as \<^verbatim>\<open>String(n)\<close> prints an integer.\<close>

definition digit :: "nat \<Rightarrow> char" where
  "digit n = ''0123456789'' ! (n mod 10)"

function show_nat :: "nat \<Rightarrow> string" where
  "show_nat n = (if n < 10 then [digit n] else show_nat (n div 10) @ [digit n])"
  by pat_completeness auto
termination
  by (relation "measure (\<lambda>n. n)") auto

declare show_nat.simps [simp del]

definition show_int :: "int \<Rightarrow> string" where
  "show_int i = (if i < 0 then CHR ''-'' # show_nat (nat (- i)) else show_nat (nat i))"

fun join :: "string \<Rightarrow> string list \<Rightarrow> string" where
  "join sep [] = []"
| "join sep [x] = x"
| "join sep (x # y # ys) = x @ sep @ join sep (y # ys)"

text \<open>
  The abstract operation ToString, which the \<^verbatim>\<open>Error\<close> constructor applies to its
  message argument. An array joins its elements with commas, printing \<^verbatim>\<open>null\<close> and
  \<^verbatim>\<open>undefined\<close> elements as nothing.
\<close>

fun ToString :: "jsval \<Rightarrow> string" where
  "ToString JUndefined = ''undefined''"
| "ToString JNull = ''null''"
| "ToString (JBool b) = (if b then ''true'' else ''false'')"
| "ToString (JNum n) = show_int n"
| "ToString (JStr s) = s"
| "ToString (JArr xs) =
     join '','' (map (\<lambda>x. if x = JUndefined \<or> x = JNull then [] else ToString x) xs)"
| "ToString (JObj ps) = ''[object Object]''"

section \<open>The error class and thrown values\<close>

text \<open>
  \<^verbatim>\<open>class DataHordersCDNError extends Error\<close> with the fields \<^verbatim>\<open>code\<close>,
  \<^verbatim>\<open>status\<close> and \<^verbatim>\<open>details\<close>. The code and the details are stored as they are
  passed (at run time they come out of decoded JSON); \<^verbatim>\<open>details\<close> is set only when
  it is not \<^verbatim>\<open>undefined\<close>, so an absent field and \<open>JUndefined\<close> coincide.
\<close>

record cdn_error =
  message :: string
  code :: jsval
  status :: nat
  details :: jsval

text \<open>
  \<^verbatim>\<open>super(message)\<close>: the \<^verbatim>\<open>Error\<close> constructor stores ToString of a message that
  is not \<^verbatim>\<open>undefined\<close>; otherwise the message is the inherited empty string.
\<close>

definition error_message :: "jsval \<Rightarrow> string" where
  "error_message m = (if m = JUndefined then [] else ToString m)"

definition DataHordersCDNError :: "jsval \<Rightarrow> jsval \<Rightarrow> nat \<Rightarrow> jsval \<Rightarrow> cdn_error" where
  "DataHordersCDNError m c s d =
     \<lparr>message = error_message m, code = c, status = s, details = d\<rparr>"

text \<open>
  What a \<^verbatim>\<open>throw\<close> or a rejected promise carries: an instance of the SDK's error
  class, another \<^verbatim>\<open>Error\<close> instance with its name and message, or a value that is
  no \<^verbatim>\<open>Error\<close> at all.
\<close>

datatype thrown =
    CDNError cdn_error
  | JsError string string
  | NonError jsval

text \<open>
  Reading a property. \<^verbatim>\<open>undefined.p\<close> and \<^verbatim>\<open>null.p\<close> throw a TypeError (the wording
  is V8's); a primitive or an array has none of the properties the SDK reads
  (\<^verbatim>\<open>success\<close>, \<^verbatim>\<open>error\<close>, \<^verbatim>\<open>message\<close>, \<^verbatim>\<open>code\<close>, \<^verbatim>\<open>details\<close>, \<^verbatim>\<open>data\<close>,
  \<^verbatim>\<open>status\<close>), so the read gives \<^verbatim>\<open>undefined\<close>.
\<close>

definition cannot_read :: "jsval \<Rightarrow> string \<Rightarrow> thrown" where
  "cannot_read v p =
     JsError ''TypeError''
       (''Cannot read properties of '' @ ToString v @ '' (reading '' @ [CHR 0x27] @ p @ [CHR 0x27] @ '')'')"

definition obj_get :: "(string \<times> jsval) list \<Rightarrow> string \<Rightarrow> jsval" where
  "obj_get ps p = (case map_of ps p of None \<Rightarrow> JUndefined | Some v \<Rightarrow> v)"

fun get_prop :: "jsval \<Rightarrow> string \<Rightarrow> thrown + jsval" where
  "get_prop JUndefined p = Inl (cannot_read JUndefined p)"
| "get_prop JNull p = Inl (cannot_read JNull p)"
| "get_prop (JObj ps) p = Inr (obj_get ps p)"
| "get_prop v p = Inr JUndefined"

section \<open>Configuration and the HTTP client\<close>

record DataHordersCDNConfig =
  cfg_apiKey :: string
  cfg_baseUrl :: "string option"
  cfg_timeout :: "nat option"
  cfg_headers :: "(string \<rightharpoonup> string) option"

record HttpClient =
  baseUrl :: string
  apiKey :: string
  timeout :: nat
  customHeaders :: "string \<rightharpoonup> string"

definition DEFAULT_BASE_URL :: string where
  "DEFAULT_BASE_URL = ''https://dashboard.datahorders.org/api/user/v1''"

definition DEFAULT_TIMEOUT :: nat where
  "DEFAULT_TIMEOUT = 30000"

text \<open>\<^verbatim>\<open>.replace(/\/$/, '')\<close> removes one slash at the end of the string.\<close>

definition strip_trailing_slash :: "string \<Rightarrow> string" where
  "strip_trailing_slash s = (if s \<noteq> [] \<and> last s = CHR ''/'' then butlast s else s)"

definition new_HttpClient :: "DataHordersCDNConfig \<Rightarrow> HttpClient" where
  "new_HttpClient config =
     \<lparr>baseUrl = strip_trailing_slash
        (case cfg_baseUrl config of None \<Rightarrow> DEFAULT_BASE_URL | Some b \<Rightarrow> b),
      apiKey = cfg_apiKey config,
      timeout = (case cfg_timeout config of None \<Rightarrow> DEFAULT_TIMEOUT | Some t \<Rightarrow> t),
      customHeaders = (case cfg_headers config of None \<Rightarrow> Map.empty | Some h \<Rightarrow> h)\<rparr>"

section \<open>URLs and query parameters\<close>

text \<open>
  A query value has the type \<^verbatim>\<open>string | number | boolean | undefined\<close>; the
  parameters are the entries of the \<^verbatim>\<open>params\<close> object in the order
  \<^verbatim>\<open>Object.entries\<close> lists them.
\<close>

datatype qvalue = QUndefined | QStr string | QNum int | QBool bool

fun js_String :: "qvalue \<Rightarrow> string" where
  "js_String QUndefined = ''undefined''"
| "js_String (QStr s) = s"
| "js_String (QNum n) = show_int n"
| "js_String (QBool b) = (if b then ''true'' else ''false'')"

text \<open>
  A \<^verbatim>\<open>URL\<close> object: the serialized scheme, authority and path; the query component
  (absent, or the text after the question mark); the list its \<^verbatim>\<open>searchParams\<close>
  object holds; the fragment.
\<close>

record url =
  location :: string
  query :: "string option"
  searchParams :: "(string \<times> string) list"
  fragment :: "string option"

text \<open>
  The \<^verbatim>\<open>application/x-www-form-urlencoded\<close> serializer of the URL standard: a space
  becomes a plus sign, the ASCII letters and digits and \<^verbatim>\<open>* - . _\<close> stay, every other
  byte is percent-encoded with upper-case hexadecimal digits.
\<close>

definition hex_digit :: "nat \<Rightarrow> char" where
  "hex_digit n = ''0123456789ABCDEF'' ! (n mod 16)"

definition urlencoded_safe :: "char \<Rightarrow> bool" where
  "urlencoded_safe c \<longleftrightarrow>
     c \<in> set ''ABCDEFGHIJKLMNOPQRSTUVWXYZabcdefghijklmnopqrstuvwxyz0123456789*-._''"

definition urlencode_byte :: "char \<Rightarrow> string" where
  "urlencode_byte c =
     (if c = CHR '' '' then ''+''
      else if urlencoded_safe c then [c]
      else [CHR ''%'', hex_digit (of_char c div 16), hex_digit (of_char c)])"

definition urlencode :: "string \<Rightarrow> string" where
  "urlencode s = concat (map urlencode_byte s)"

definition urlencoded_serialize :: "(string \<times> string) list \<Rightarrow> string" where
  "urlencoded_serialize ps = join ''&'' (map (\<lambda>(k, v). urlencode k @ ''='' @ urlencode v) ps)"

text \<open>
  \<^verbatim>\<open>url.searchParams.append(key, value)\<close> adds the pair at the end of the list and
  replaces the URL's query by the serialization of the whole list.
\<close>

definition searchParams_append :: "url \<Rightarrow> string \<Rightarrow> string \<Rightarrow> url" where
  "searchParams_append u k v =
     u\<lparr>searchParams := searchParams u @ [(k, v)],
       query := Some (urlencoded_serialize (searchParams u @ [(k, v)]))\<rparr>"

text \<open>\<^verbatim>\<open>url.toString()\<close>\<close>

definition href :: "url \<Rightarrow> string" where
  "href u = location u
     @ (case query u of None \<Rightarrow> [] | Some q \<Rightarrow> CHR ''?'' # q)
     @ (case fragment u of None \<Rightarrow> [] | Some f \<Rightarrow> CHR ''#'' # f)"

text \<open>
  The loop over \<^verbatim>\<open>Object.entries(options.params)\<close> (lines 148--152): an entry whose
  value is not \<^verbatim>\<open>undefined\<close> is appended with its value stringified.
\<close>

fun add_params :: "url \<Rightarrow> (string \<times> qvalue) list \<Rightarrow> url" where
  "add_params u [] = u"
| "add_params u ((key, value) # entries) =
     add_params (if value \<noteq> QUndefined then searchParams_append u key (js_String value) else u)
       entries"

section \<open>The platform: URL parser and transport\<close>

text \<open>
  \<^verbatim>\<open>JSON.stringify(body)\<close> is kept symbolic: the request body is the JSON text of a
  value.
\<close>

datatype json_text = JSON_stringify jsval

text \<open>
  The second argument of \<^verbatim>\<open>fetch\<close>. The \<^verbatim>\<open>signal\<close> is the abort signal of the
  controller created for the call, which a timer fires after the given number of
  milliseconds.
\<close>

record RequestInit =
  http_method :: string
  headers :: "string \<rightharpoonup> string"
  signal :: nat
  init_body :: "json_text option"

text \<open>
  A response: its status, and what each way of reading its body settles to. A body
  read either rejects with a thrown value or yields the decoded JSON value, the text or
  the bytes.
\<close>

record response =
  resp_status :: nat
  json_result :: "thrown + jsval"
  text_result :: "thrown + string"
  blob_result :: "thrown + string"

definition ok :: "response \<Rightarrow> bool" where
  "ok r \<longleftrightarrow> 200 \<le> resp_status r \<and> resp_status r \<le> 299"

text \<open>
  The built-ins the client calls are parameters: \<^verbatim>\<open>new URL(s)\<close>, which throws or
  gives a URL object, and \<^verbatim>\<open>fetch(url, init)\<close>, which rejects or resolves to a
  response.
\<close>

record platform =
  new_URL :: "string \<Rightarrow> thrown + url"
  fetch :: "string \<Rightarrow> RequestInit \<Rightarrow> thrown + response"

section \<open>The request engine\<close>

text \<open>
  The options of \<^verbatim>\<open>HttpClient.request\<close>. An optional property that is missing reads
  as \<^verbatim>\<open>undefined\<close>: \<open>JUndefined\<close> for the body, \<open>None\<close> for the parameters and
  the response type.
\<close>

datatype response_type = ResponseJson | ResponseBlob

record request_options =
  body :: jsval
  params :: "((string \<times> qvalue) list) option"
  responseType :: "response_type option"

definition no_options :: request_options where
  "no_options = \<lparr>body = JUndefined, params = None, responseType = None\<rparr>"

text \<open>What a call returns: the decoded JSON value, or the bytes of a blob.\<close>

datatype result = Json jsval | Blob string

text \<open>Lines 144--153: the URL object after the query parameters are appended.\<close>

definition request_url :: "platform \<Rightarrow> HttpClient \<Rightarrow> string \<Rightarrow> request_options \<Rightarrow> thrown + url" where
  "request_url pf this path options =
     (case new_URL pf (baseUrl this @ path) of
        Inl e \<Rightarrow> Inl e
      | Inr u \<Rightarrow> Inr (case params options of None \<Rightarrow> u | Some entries \<Rightarrow> add_params u entries))"

text \<open>
  Lines 155--162: the object literal puts the key first and spreads the configured
  headers after it, so a configured header of the same name replaces the entry; the
  content type is assigned last, when the body is truthy.
\<close>

definition request_headers :: "HttpClient \<Rightarrow> request_options \<Rightarrow> (string \<rightharpoonup> string)" where
  "request_headers this options =
     (let headers = [''X-API-Key'' \<mapsto> apiKey this] ++ customHeaders this
      in if truthy (body options) then headers(''Content-Type'' \<mapsto> ''application/json'')
         else headers)"

text \<open>Lines 168--176: the options given to \<^verbatim>\<open>fetch\<close>.\<close>

definition fetchOptions :: "HttpClient \<Rightarrow> string \<Rightarrow> request_options \<Rightarrow> RequestInit" where
  "fetchOptions this meth options =
     \<lparr>http_method = meth,
      headers = request_headers this options,
      signal = timeout this,
      init_body = (if truthy (body options) then Some (JSON_stringify (body options)) else None)\<rparr>"

text \<open>
  Lines 197--209: the error branch of the JSON path. It always throws: the error built
  from the envelope's \<^verbatim>\<open>error\<close> field, or the TypeError of a property read on
  \<^verbatim>\<open>undefined\<close> or \<^verbatim>\<open>null\<close>.
\<close>

definition envelope_error :: "nat \<Rightarrow> jsval \<Rightarrow> thrown" where
  "envelope_error st data =
     (case get_prop data ''error'' of
        Inl e \<Rightarrow> e
      | Inr err \<Rightarrow>
          let error = (case err of
                         JStr s \<Rightarrow> JObj [(''code'', JStr ''API_ERROR''), (''message'', JStr s)]
                       | _ \<Rightarrow> err)
          in (case get_prop error ''message'' of
                Inl e \<Rightarrow> e
              | Inr m \<Rightarrow>
                  (case get_prop error ''code'' of
                     Inl e \<Rightarrow> e
                   | Inr c \<Rightarrow>
                       (case get_prop error ''details'' of
                          Inl e \<Rightarrow> e
                        | Inr d \<Rightarrow> CDNError (DataHordersCDNError m c st d)))))"

text \<open>
  Lines 182--211: what the body of the \<^verbatim>\<open>try\<close> does with the response. \<open>Inl\<close> is a
  throw inside the \<^verbatim>\<open>try\<close>; \<open>Inr\<close> is a \<^verbatim>\<open>return\<close>, with the settlement of the
  returned value: \<^verbatim>\<open>return data\<close> fulfils, \<^verbatim>\<open>return response.blob()\<close> hands the
  promise of the body read out of the \<^verbatim>\<open>try\<close> without awaiting it. In
  \<^verbatim>\<open>!response.ok || !data.success\<close> the second operand is read only when the first is
  false.
\<close>

definition receive :: "response_type option \<Rightarrow> response \<Rightarrow> thrown + (thrown + result)" where
  "receive rt r =
     (if rt = Some ResponseBlob then
        (if \<not> ok r then
           (case text_result r of
              Inl e \<Rightarrow> Inl e
            | Inr errorText \<Rightarrow>
                Inl (CDNError (DataHordersCDNError
                  (JStr (if errorText \<noteq> [] then errorText else ''Request failed''))
                  (JStr ''REQUEST_FAILED'') (resp_status r) JUndefined)))
         else Inr (case blob_result r of Inl e \<Rightarrow> Inl e | Inr b \<Rightarrow> Inr (Blob b)))
      else
        (case json_result r of
           Inl e \<Rightarrow> Inl e
         | Inr data \<Rightarrow>
             if \<not> ok r then Inl (envelope_error (resp_status r) data)
             else (case get_prop data ''success'' of
                     Inl e \<Rightarrow> Inl e
                   | Inr s \<Rightarrow>
                       if \<not> truthy s then Inl (envelope_error (resp_status r) data)
                       else Inr (Inr (Json data)))))"

text \<open>Lines 212--239: the \<^verbatim>\<open>catch\<close> block; the value it throws.\<close>

fun catch_error :: "thrown \<Rightarrow> thrown" where
  "catch_error (CDNError e) = CDNError e"
| "catch_error (JsError name msg) =
     (if name = ''AbortError''
      then CDNError (DataHordersCDNError (JStr ''Request timeout'') (JStr ''TIMEOUT'') 0 JUndefined)
      else CDNError (DataHordersCDNError (JStr msg) (JStr ''NETWORK_ERROR'') 0 JUndefined))"
| "catch_error (NonError v) =
     CDNError (DataHordersCDNError (JStr ''Unknown error occurred'') (JStr ''UNKNOWN_ERROR'') 0
       JUndefined)"

text \<open>
  Lines 167--211, the \<^verbatim>\<open>try\<close> block: the call of \<^verbatim>\<open>fetch\<close>, awaited, then the
  handling of the response.
\<close>

definition try_block :: "platform \<Rightarrow> HttpClient \<Rightarrow> url \<Rightarrow> string \<Rightarrow> request_options
    \<Rightarrow> thrown + (thrown + result)" where
  "try_block pf this u meth options =
     (case fetch pf (href u) (fetchOptions this meth options) of
        Inl e \<Rightarrow> Inl e
      | Inr r \<Rightarrow> receive (responseType options) r)"

text \<open>
  \<^verbatim>\<open>HttpClient.request\<close>. \<open>Inl\<close> is the rejection of the promise it returns,
  \<open>Inr\<close> its value. The URL is constructed before the \<^verbatim>\<open>try\<close> is entered.
\<close>

definition request :: "platform \<Rightarrow> HttpClient \<Rightarrow> string \<Rightarrow> string \<Rightarrow> request_options
    \<Rightarrow> thrown + result" where
  "request pf this meth path options =
     (case request_url pf this path options of
        Inl e \<Rightarrow> Inl e
      | Inr u \<Rightarrow>
          (case try_block pf this u meth options of
             Inl error \<Rightarrow> Inl (catch_error error)
           | Inr promise \<Rightarrow> promise))"


definition post :: "platform \<Rightarrow> HttpClient \<Rightarrow> string \<Rightarrow> jsval \<Rightarrow> ((string \<times> qvalue) list) option
    \<Rightarrow> thrown + result" where
  "post pf this path b ps = request pf this ''POST'' path (no_options\<lparr>body := b, params := ps\<rparr>)"

definition put :: "platform \<Rightarrow> HttpClient \<Rightarrow> string \<Rightarrow> jsval \<Rightarrow> ((string \<times> qvalue) list) option
    \<Rightarrow> thrown + result" where
  "put pf this path b ps = request pf this ''PUT'' path (no_options\<lparr>body := b, params := ps\<rparr>)"

definition patch :: "platform \<Rightarrow> HttpClient \<Rightarrow> string \<Rightarrow> jsval \<Rightarrow> ((string \<times> qvalue) list) option
    \<Rightarrow> thrown + result" where
  "patch pf this path b ps = request pf this ''PATCH'' path (no_options\<lparr>body := b, params := ps\<rparr>)"

definition delete :: "platform \<Rightarrow> HttpClient \<Rightarrow> string \<Rightarrow> ((string \<times> qvalue) list) option
    \<Rightarrow> thrown + result" where
  "delete pf this path ps = request pf this ''DELETE'' path (no_options\<lparr>params := ps\<rparr>)"

definition download :: "platform \<Rightarrow> HttpClient \<Rightarrow> string \<Rightarrow> thrown + result" where
  "download pf this path =
     request pf this ''GET'' path (no_options\<lparr>responseType := Some ResponseBlob\<rparr>)"

section \<open>Polling an ACME certificate\<close>











section \<open>Concrete platforms and responses\<close>

text \<open>
  A URL parser for the strings that are already absolute \<^verbatim>\<open>http\<close> or \<^verbatim>\<open>https\<close>
  URLs in serialized form with no query and no fragment: it leaves them as they are. A
  string with no scheme is no URL, and the constructor throws.
\<close>

definition invalid_url :: thrown where
  "invalid_url = JsError ''TypeError'' ''Invalid URL''"

definition plain_URL :: "string \<Rightarrow> thrown + url" where
  "plain_URL s =
     (if take 8 s = ''https://'' \<or> take 7 s = ''http://''
      then Inr \<lparr>location = s, query = None, searchParams = [], fragment = None\<rparr>
      else Inl invalid_url)"

text \<open>A platform whose transport answers every request with one response.\<close>

definition answering :: "response \<Rightarrow> platform" where
  "answering r = \<lparr>new_URL = plain_URL, fetch = (\<lambda>u init. Inr r)\<rparr>"

text \<open>A platform whose transport rejects every request.\<close>

definition rejecting :: "thrown \<Rightarrow> platform" where
  "rejecting e = \<lparr>new_URL = plain_URL, fetch = (\<lambda>u init. Inl e)\<rparr>"

text \<open>
  A body can be read once. A response whose body is read as JSON, as text or as a blob;
  the other readers reject.
\<close>

definition body_used :: thrown where
  "body_used = JsError ''TypeError'' ''Body is unusable''"

definition json_response :: "nat \<Rightarrow> thrown + jsval \<Rightarrow> response" where
  "json_response st j =
     \<lparr>resp_status = st, json_result = j, text_result = Inl body_used, blob_result = Inl body_used\<rparr>"

definition text_response :: "nat \<Rightarrow> string \<Rightarrow> response" where
  "text_response st t =
     \<lparr>resp_status = st, json_result = Inl body_used, text_result = Inr t, blob_result = Inl body_used\<rparr>"

definition blob_response :: "nat \<Rightarrow> string \<Rightarrow> response" where
  "blob_response st b =
     \<lparr>resp_status = st, json_result = Inl body_used, text_result = Inl body_used, blob_result = Inr b\<rparr>"

definition example_client :: HttpClient where
  "example_client = new_HttpClient
     \<lparr>cfg_apiKey = ''secret'', cfg_baseUrl = Some ''https://api.example/v1/'', cfg_timeout = None,
      cfg_headers = None\<rparr>"

text \<open>The conflict response of a domain that is registered already.\<close>

definition domain_exists :: jsval where
  "domain_exists = JObj [(''success'', JBool False),
     (''error'', JObj [(''code'', JStr ''DOMAIN_EXISTS''),
                       (''message'', JStr ''Domain already registered'')])]"

text \<open>A client configured with a base URL that has no scheme.\<close>

definition schemeless_client :: HttpClient where
  "schemeless_client = new_HttpClient
     \<lparr>cfg_apiKey = ''secret'', cfg_baseUrl = Some ''api.example/v1'', cfg_timeout = None,
      cfg_headers = None\<rparr>"


definition empty_list_envelope :: jsval where
  "empty_list_envelope = JObj [(''success'', JBool True), (''data'', JArr [])]"




text \<open>
  The options of a download; a client whose configured headers name the credential
  header and the content type; a client with one configured header; a request body.
\<close>

definition blob_options :: request_options where
  "blob_options = no_options\<lparr>responseType := Some ResponseBlob\<rparr>"

definition overriding_client :: HttpClient where
  "overriding_client = new_HttpClient
     \<lparr>cfg_apiKey = ''secret'', cfg_baseUrl = None, cfg_timeout = None,
      cfg_headers = Some [''X-API-Key'' \<mapsto> ''other'', ''Content-Type'' \<mapsto> ''text/plain'']\<rparr>"

definition tracing_client :: HttpClient where
  "tracing_client = new_HttpClient
     \<lparr>cfg_apiKey = ''secret'', cfg_baseUrl = None, cfg_timeout = None,
      cfg_headers = Some [''X-Trace'' \<mapsto> ''on'']\<rparr>"

definition new_domain :: jsval where
  "new_domain = JObj [(''domain'', JStr ''example.com'')]"






section \<open>Basic facts\<close>

lemma catch_error_uniform: "\<exists>e. catch_error x = CDNError e"
  by (cases x) auto

lemma request_settles:
  assumes "request_url pf this path options = Inr u"
    and "fetch pf (href u) (fetchOptions this meth options) = Inr r"
  shows "request pf this meth path options =
     (case receive (responseType options) r of Inl e \<Rightarrow> Inl (catch_error e) | Inr p \<Rightarrow> p)"
  using assms by (simp add: request_def try_block_def)

lemma example_client_simps:
  "baseUrl example_client = ''https://api.example/v1''"
  "apiKey example_client = ''secret''"
  "timeout example_client = 30000"
  "customHeaders example_client = Map.empty"
  by (simp_all add: example_client_def new_HttpClient_def strip_trailing_slash_def
      DEFAULT_TIMEOUT_def)

lemma example_url:
  "request_url (answering r) example_client ''/domains'' no_options =
     Inr \<lparr>location = ''https://api.example/v1/domains'', query = None, searchParams = [],
          fragment = None\<rparr>"
  by (simp add: request_url_def answering_def plain_URL_def example_client_simps no_options_def)

lemma example_conflict:
  "try_block (answering (json_response 409 (Inr domain_exists))) example_client u ''POST'' no_options =
     Inl (CDNError \<lparr>message = ''Domain already registered'', code = JStr ''DOMAIN_EXISTS'',
            status = 409, details = JUndefined\<rparr>)"
  by (simp add: try_block_def answering_def json_response_def receive_def no_options_def ok_def
      envelope_error_def domain_exists_def obj_get_def DataHordersCDNError_def error_message_def)

lemma error_message_JStr: "error_message (JStr m) = m"
  by (simp add: error_message_def)

lemma rejecting_try_block: "try_block (rejecting e) this u meth options = Inl e"
  by (simp add: try_block_def rejecting_def)

lemma example_url_rejecting:
  "request_url (rejecting e) example_client ''/domains'' no_options =
     Inr \<lparr>location = ''https://api.example/v1/domains'', query = None, searchParams = [],
          fragment = None\<rparr>"
  by (simp add: request_url_def rejecting_def plain_URL_def example_client_simps no_options_def)

lemma example_answer:
  "fetch (answering r) x init = Inr r"
  by (simp add: answering_def)

lemma no_options_simps:
  "body no_options = JUndefined" "params no_options = None" "responseType no_options = None"
  by (simp_all add: no_options_def)

lemma ok_200: "ok (json_response 200 j)"
  by (simp add: ok_def json_response_def)

lemma json_response_simps:
  "resp_status (json_response st j) = st"
  "json_result (json_response st j) = j"
  by (simp_all add: json_response_def)




section \<open>Errors built inside the engine are not wrapped again\<close>

text \<open>
  Claim C5. When the \<^verbatim>\<open>try\<close> block throws an instance of the SDK's error class (the
  envelope branch and the binary branch build one), the \<^verbatim>\<open>catch\<close> block throws the
  same error again, and the promise of \<^verbatim>\<open>request\<close> rejects with that error,
  unchanged: it is never turned into a TIMEOUT, NETWORK_ERROR or UNKNOWN_ERROR.
\<close>

theorem uniform_error_propagates:
  assumes "request_url pf this path options = Inr u"
    and "try_block pf this u meth options = Inl (CDNError e)"
  shows "catch_error (CDNError e) = CDNError e
    \<and> request pf this meth path options = Inl (CDNError e)"
  using assms by (simp add: request_def)

theorem uniform_error_propagates_witness:
  "request_url (answering (json_response 409 (Inr domain_exists))) example_client ''/domains'' no_options =
     Inr \<lparr>location = ''https://api.example/v1/domains'', query = None, searchParams = [],
          fragment = None\<rparr>
   \<and> try_block (answering (json_response 409 (Inr domain_exists))) example_client
        \<lparr>location = ''https://api.example/v1/domains'', query = None, searchParams = [],
          fragment = None\<rparr> ''POST'' no_options =
     Inl (CDNError \<lparr>message = ''Domain already registered'', code = JStr ''DOMAIN_EXISTS'',
            status = 409, details = JUndefined\<rparr>)
   \<and> request (answering (json_response 409 (Inr domain_exists))) example_client ''POST'' ''/domains''
        no_options =
     Inl (CDNError \<lparr>message = ''Domain already registered'', code = JStr ''DOMAIN_EXISTS'',
            status = 409, details = JUndefined\<rparr>)"
  using uniform_error_propagates [OF example_url example_conflict]
    example_url example_conflict
  by simp

section \<open>Failures that are no Uniform Error\<close>

text \<open>
  Claim C3, as amended. A failure raised inside the \<^verbatim>\<open>try\<close> block (by the transport
  call, by reading the body as JSON or as text, or by the handling of the decoded
  envelope) that is no instance of the SDK's error class leaves \<^verbatim>\<open>request\<close> as
  exactly one of three errors of that class, each with status 0: an \<^verbatim>\<open>Error\<close> named
  \<^verbatim>\<open>AbortError\<close> (the abort signal fired) becomes TIMEOUT with the message "Request
  timeout"; any other \<^verbatim>\<open>Error\<close> becomes NETWORK_ERROR with that error's message; a
  thrown value that is no \<^verbatim>\<open>Error\<close> becomes UNKNOWN_ERROR with the message "Unknown
  error occurred".
\<close>

theorem failure_in_try_is_classified:
  assumes "request_url pf this path options = Inr u"
    and "try_block pf this u meth options = Inl e"
    and "\<forall>c. e \<noteq> CDNError c"
  shows "(\<forall>m. e = JsError ''AbortError'' m \<longrightarrow>
            request pf this meth path options =
              Inl (CDNError \<lparr>message = ''Request timeout'', code = JStr ''TIMEOUT'', status = 0,
                     details = JUndefined\<rparr>))
    \<and> (\<forall>n m. e = JsError n m \<and> n \<noteq> ''AbortError'' \<longrightarrow>
            request pf this meth path options =
              Inl (CDNError \<lparr>message = m, code = JStr ''NETWORK_ERROR'', status = 0,
                     details = JUndefined\<rparr>))
    \<and> (\<forall>v. e = NonError v \<longrightarrow>
            request pf this meth path options =
              Inl (CDNError \<lparr>message = ''Unknown error occurred'', code = JStr ''UNKNOWN_ERROR'',
                     status = 0, details = JUndefined\<rparr>))
    \<and> (\<exists>c. request pf this meth path options = Inl (CDNError c) \<and> status c = 0
            \<and> code c \<in> {JStr ''TIMEOUT'', JStr ''NETWORK_ERROR'', JStr ''UNKNOWN_ERROR''})"
proof -
  have req: "request pf this meth path options = Inl (catch_error e)"
    using assms(1,2) by (simp add: request_def)
  show ?thesis
  proof (cases e)
    case (CDNError c)
    with assms(3) show ?thesis by simp
  next
    case (JsError n m)
    then show ?thesis
      by (simp add: req DataHordersCDNError_def error_message_JStr)
  next
    case (NonError v)
    then show ?thesis
      by (simp add: req DataHordersCDNError_def error_message_JStr)
  qed
qed

theorem failure_in_try_is_classified_witness:
  "(request_url (rejecting (JsError ''AbortError'' ''This operation was aborted'')) example_client
       ''/domains'' no_options =
      Inr \<lparr>location = ''https://api.example/v1/domains'', query = None, searchParams = [],
           fragment = None\<rparr>
    \<and> try_block (rejecting (JsError ''AbortError'' ''This operation was aborted'')) example_client
       \<lparr>location = ''https://api.example/v1/domains'', query = None, searchParams = [],
           fragment = None\<rparr> ''GET'' no_options =
      Inl (JsError ''AbortError'' ''This operation was aborted'')
    \<and> request (rejecting (JsError ''AbortError'' ''This operation was aborted'')) example_client
       ''GET'' ''/domains'' no_options =
      Inl (CDNError \<lparr>message = ''Request timeout'', code = JStr ''TIMEOUT'', status = 0,
             details = JUndefined\<rparr>))
   \<and> (try_block (rejecting (JsError ''TypeError'' ''fetch failed'')) example_client
       \<lparr>location = ''https://api.example/v1/domains'', query = None, searchParams = [],
           fragment = None\<rparr> ''GET'' no_options =
      Inl (JsError ''TypeError'' ''fetch failed'')
    \<and> ''TypeError'' \<noteq> ''AbortError''
    \<and> request (rejecting (JsError ''TypeError'' ''fetch failed'')) example_client
       ''GET'' ''/domains'' no_options =
      Inl (CDNError \<lparr>message = ''fetch failed'', code = JStr ''NETWORK_ERROR'', status = 0,
             details = JUndefined\<rparr>))
   \<and> (try_block (rejecting (NonError (JStr ''stop''))) example_client
       \<lparr>location = ''https://api.example/v1/domains'', query = None, searchParams = [],
           fragment = None\<rparr> ''GET'' no_options =
      Inl (NonError (JStr ''stop''))
    \<and> request (rejecting (NonError (JStr ''stop''))) example_client
       ''GET'' ''/domains'' no_options =
      Inl (CDNError \<lparr>message = ''Unknown error occurred'', code = JStr ''UNKNOWN_ERROR'',
             status = 0, details = JUndefined\<rparr>))"
  using failure_in_try_is_classified [OF example_url_rejecting rejecting_try_block,
      of "JsError ''AbortError'' ''This operation was aborted''" "''GET''"]
    failure_in_try_is_classified [OF example_url_rejecting rejecting_try_block,
      of "JsError ''TypeError'' ''fetch failed''" "''GET''"]
    failure_in_try_is_classified [OF example_url_rejecting rejecting_try_block,
      of "NonError (JStr ''stop'')" "''GET''"]
    example_url_rejecting [of "JsError ''AbortError'' ''This operation was aborted''"]
  by (simp add: rejecting_try_block)

text \<open>
  Claim C3 as it is stated, for every failure during the execution of the request, does
  not hold: the URL is constructed before the \<^verbatim>\<open>try\<close> block is entered, so with a base
  URL that has no scheme the TypeError of the \<^verbatim>\<open>URL\<close> constructor leaves
  \<^verbatim>\<open>request\<close> as it is.
\<close>

theorem url_failure_leaves_unclassified:
  "request (answering (json_response 200 (Inr (JObj [(''success'', JBool True), (''data'', JArr [])]))))
     schemeless_client ''GET'' ''/domains'' no_options =
   Inl (JsError ''TypeError'' ''Invalid URL'')"
  by (simp add: request_def request_url_def answering_def plain_URL_def schemeless_client_def
      new_HttpClient_def strip_trailing_slash_def invalid_url_def)

text \<open>
  The read of a blob is returned from the \<^verbatim>\<open>try\<close> block without being awaited (line
  192), so a body read that fails after a success status is not seen by the
  \<^verbatim>\<open>catch\<close> block either.
\<close>

lemma blob_read_failure_leaves_unclassified:
  "download (answering \<lparr>resp_status = 200, json_result = Inl body_used,
       text_result = Inl body_used, blob_result = Inl (JsError ''TypeError'' ''terminated'')\<rparr>)
     example_client ''/certificates/c1/download'' =
   Inl (JsError ''TypeError'' ''terminated'')"
  by (simp add: download_def request_def request_url_def try_block_def receive_def answering_def
      plain_URL_def example_client_simps no_options_def ok_def)

section \<open>A body that is not JSON\<close>

text \<open>
  Claim C4, as amended. When a response with a success status has a body that cannot
  be parsed as JSON, so that \<^verbatim>\<open>response.json()\<close> rejects with an \<^verbatim>\<open>Error\<close> (a
  SyntaxError), the engine raises the error with code NETWORK_ERROR, status 0 and the
  message of the parse failure.
\<close>

theorem undecodable_body_is_network_error:
  assumes "request_url pf this path options = Inr u"
    and "fetch pf (href u) (fetchOptions this meth options) = Inr r"
    and "responseType options \<noteq> Some ResponseBlob"
    and "ok r"
    and "json_result r = Inl (JsError name msg)"
    and "name \<noteq> ''AbortError''"
  shows "request pf this meth path options =
     Inl (CDNError \<lparr>message = msg, code = JStr ''NETWORK_ERROR'', status = 0,
            details = JUndefined\<rparr>)"
  using assms
  by (simp add: request_settles receive_def DataHordersCDNError_def error_message_JStr)

theorem undecodable_body_is_network_error_witness:
  "request_url (answering (json_response 200 (Inl (JsError ''SyntaxError'' ''Unexpected end of JSON input''))))
       example_client ''/domains'' no_options =
     Inr \<lparr>location = ''https://api.example/v1/domains'', query = None, searchParams = [],
          fragment = None\<rparr>
   \<and> responseType no_options \<noteq> Some ResponseBlob
   \<and> ok (json_response 200 (Inl (JsError ''SyntaxError'' ''Unexpected end of JSON input'')))
   \<and> ''SyntaxError'' \<noteq> ''AbortError''
   \<and> request (answering (json_response 200 (Inl (JsError ''SyntaxError'' ''Unexpected end of JSON input''))))
       example_client ''GET'' ''/domains'' no_options =
     Inl (CDNError \<lparr>message = ''Unexpected end of JSON input'', code = JStr ''NETWORK_ERROR'',
            status = 0, details = JUndefined\<rparr>)"
proof -
  let ?r = "json_response 200 (Inl (JsError ''SyntaxError'' ''Unexpected end of JSON input''))"
  have rt: "responseType no_options \<noteq> Some ResponseBlob"
    by (simp add: no_options_simps)
  have js: "json_result ?r = Inl (JsError ''SyntaxError'' ''Unexpected end of JSON input'')"
    by (simp add: json_response_simps)
  have nm: "''SyntaxError'' \<noteq> ''AbortError''"
    by simp
  from undecodable_body_is_network_error [OF example_url example_answer rt ok_200 js nm]
    example_url [of ?r] rt ok_200 [of "json_result ?r"] nm
  show ?thesis by (simp add: json_response_simps)
qed

text \<open>
  Claim C4 as it is stated does not hold: for a response with status 200 whose body is
  not JSON the code of the raised error is NETWORK_ERROR, not UNKNOWN_ERROR.
\<close>

theorem undecodable_body_not_unknown_error:
  "request (answering (json_response 200 (Inl (JsError ''SyntaxError'' ''Unexpected token < in JSON at position 0''))))
       example_client ''GET'' ''/domains'' no_options =
     Inl (CDNError \<lparr>message = ''Unexpected token < in JSON at position 0'',
            code = JStr ''NETWORK_ERROR'', status = 0, details = JUndefined\<rparr>)"
  by (simp add: request_settles [OF example_url example_answer] no_options_simps receive_def
      json_response_simps DataHordersCDNError_def error_message_JStr)

section \<open>Failure envelopes and failure statuses\<close>



text \<open>
  Claim C2. On the JSON path a response whose status is not 2xx makes \<^verbatim>\<open>request\<close>
  raise an error of the SDK's class, whatever its body is, also a body that decodes
  to an envelope with \<^verbatim>\<open>success: true\<close>; a response with a 2xx status and an envelope
  with \<^verbatim>\<open>success: true\<close> makes it return the decoded envelope.
\<close>

theorem status_decides:
  assumes "request_url pf this path options = Inr u"
    and "fetch pf (href u) (fetchOptions this meth options) = Inr r"
    and "responseType options \<noteq> Some ResponseBlob"
  shows "(\<not> ok r \<longrightarrow> (\<exists>e. request pf this meth path options = Inl (CDNError e)))
    \<and> (\<forall>data. ok r \<and> json_result r = Inr data \<and> get_prop data ''success'' = Inr (JBool True)
          \<longrightarrow> request pf this meth path options = Inr (Json data))"
proof (intro conjI impI allI)
  assume "\<not> ok r"
  then have "\<exists>x. receive (responseType options) r = Inl x"
    using assms(3) by (auto simp: receive_def split: sum.splits)
  then obtain x where "receive (responseType options) r = Inl x" ..
  then have "request pf this meth path options = Inl (catch_error x)"
    using assms(1,2) by (simp add: request_settles)
  then show "\<exists>e. request pf this meth path options = Inl (CDNError e)"
    using catch_error_uniform [of x] by auto
next
  fix data
  assume "ok r \<and> json_result r = Inr data \<and> get_prop data ''success'' = Inr (JBool True)"
  then show "request pf this meth path options = Inr (Json data)"
    using assms by (simp add: request_settles receive_def)
qed


theorem status_decides_witness:
  "(request_url (answering (json_response 500 (Inr empty_list_envelope))) example_client ''/domains''
       no_options =
      Inr \<lparr>location = ''https://api.example/v1/domains'', query = None, searchParams = [],
           fragment = None\<rparr>
    \<and> responseType no_options \<noteq> Some ResponseBlob
    \<and> \<not> ok (json_response 500 (Inr empty_list_envelope))
    \<and> (\<exists>e. request (answering (json_response 500 (Inr empty_list_envelope))) example_client ''GET''
         ''/domains'' no_options = Inl (CDNError e)))
   \<and> (ok (json_response 200 (Inr empty_list_envelope))
    \<and> json_result (json_response 200 (Inr empty_list_envelope)) = Inr empty_list_envelope
    \<and> get_prop empty_list_envelope ''success'' = Inr (JBool True)
    \<and> request (answering (json_response 200 (Inr empty_list_envelope))) example_client ''GET''
         ''/domains'' no_options = Inr (Json empty_list_envelope))"
proof -
  have rt: "responseType no_options \<noteq> Some ResponseBlob"
    by (simp add: no_options_simps)
  have n1: "\<not> ok (json_response 500 (Inr empty_list_envelope))"
    by (simp add: ok_def json_response_simps)
  have j2: "json_result (json_response 200 (Inr empty_list_envelope)) = Inr empty_list_envelope"
    by (simp add: json_response_simps)
  have s2: "get_prop empty_list_envelope ''success'' = Inr (JBool True)"
    by (simp add: empty_list_envelope_def obj_get_def)
  from status_decides [OF example_url example_answer rt, of "json_response 500 (Inr empty_list_envelope)" "''GET''"]
    status_decides [OF example_url example_answer rt, of "json_response 200 (Inr empty_list_envelope)" "''GET''"]
    example_url [of "json_response 500 (Inr empty_list_envelope)"] rt n1 ok_200 [of "Inr empty_list_envelope"] j2 s2
  show ?thesis
    by simp
qed

text \<open>
  The error raised for a failure status with a success envelope: the envelope has no
  \<^verbatim>\<open>error\<close> field, the read of its message throws a TypeError inside the \<^verbatim>\<open>try\<close>
  block, and the \<^verbatim>\<open>catch\<close> block makes a NETWORK_ERROR with status 0 of it.
\<close>

lemma success_body_with_failure_status:
  "request (answering (json_response 500 (Inr empty_list_envelope))) example_client ''GET''
     ''/domains'' no_options =
   Inl (CDNError \<lparr>message = ''Cannot read properties of undefined (reading '' @ [CHR 0x27]
            @ ''message'' @ [CHR 0x27] @ '')'',
          code = JStr ''NETWORK_ERROR'', status = 0, details = JUndefined\<rparr>)"
  by (simp add: request_settles [OF example_url example_answer] no_options_simps receive_def
      json_response_simps ok_def envelope_error_def empty_list_envelope_def obj_get_def
      cannot_read_def DataHordersCDNError_def error_message_JStr)

section \<open>The constructed URL\<close>












section \<open>The binary path\<close>

text \<open>
  Claim C8. When a binary result is requested, a response with a failure status makes
  \<^verbatim>\<open>request\<close> raise REQUEST_FAILED with the status of the response and the text of
  the body as message, or "Request failed" when the text is empty; a response with a
  success status makes it return the bytes of the body. Neither depends on what
  decoding the body as JSON would give: the JSON reader is not used.
\<close>

theorem binary_path:
  assumes "request_url pf this path options = Inr u"
    and "fetch pf (href u) (fetchOptions this meth options) = Inr r"
    and "responseType options = Some ResponseBlob"
  shows "(\<forall>t. \<not> ok r \<and> text_result r = Inr t \<longrightarrow>
            request pf this meth path options =
              Inl (CDNError \<lparr>message = (if t = [] then ''Request failed'' else t),
                     code = JStr ''REQUEST_FAILED'', status = resp_status r,
                     details = JUndefined\<rparr>))
    \<and> (\<forall>b. ok r \<and> blob_result r = Inr b \<longrightarrow>
            request pf this meth path options = Inr (Blob b))
    \<and> (\<forall>j. receive (responseType options) (r\<lparr>json_result := j\<rparr>)
            = receive (responseType options) r)"
proof -
  have unread: "receive (Some ResponseBlob) (r\<lparr>json_result := j\<rparr>) = receive (Some ResponseBlob) r"
    for j
    by (simp add: receive_def ok_def split: sum.splits)
  have failure: "request pf this meth path options =
      Inl (CDNError \<lparr>message = (if t = [] then ''Request failed'' else t),
             code = JStr ''REQUEST_FAILED'', status = resp_status r, details = JUndefined\<rparr>)"
    if "\<not> ok r" and "text_result r = Inr t" for t
    using that assms
    by (simp add: request_settles receive_def DataHordersCDNError_def error_message_JStr)
  have success: "request pf this meth path options = Inr (Blob b)"
    if "ok r" and "blob_result r = Inr b" for b
    using that assms by (simp add: request_settles receive_def)
  from unread failure success show ?thesis
    by (simp add: assms(3))
qed

lemma example_download_url:
  "request_url (answering r) example_client ''/certificates/c1/download'' blob_options =
     Inr \<lparr>location = ''https://api.example/v1/certificates/c1/download'', query = None,
          searchParams = [], fragment = None\<rparr>"
  by (simp add: request_url_def answering_def plain_URL_def example_client_simps
      blob_options_def no_options_def)

lemma blob_options_simps: "responseType blob_options = Some ResponseBlob"
  by (simp add: blob_options_def)

theorem binary_path_witness:
  "(request_url (answering (text_response 404 ''Certificate not found'')) example_client
       ''/certificates/c1/download'' blob_options =
      Inr \<lparr>location = ''https://api.example/v1/certificates/c1/download'', query = None,
           searchParams = [], fragment = None\<rparr>
     \<and> responseType blob_options = Some ResponseBlob
     \<and> \<not> ok (text_response 404 ''Certificate not found'')
     \<and> text_result (text_response 404 ''Certificate not found'') = Inr ''Certificate not found''
     \<and> request (answering (text_response 404 ''Certificate not found'')) example_client ''GET''
         ''/certificates/c1/download'' blob_options =
        Inl (CDNError \<lparr>message = ''Certificate not found'', code = JStr ''REQUEST_FAILED'',
               status = 404, details = JUndefined\<rparr>))
   \<and> (\<not> ok (text_response 500 [])
     \<and> text_result (text_response 500 []) = Inr []
     \<and> request (answering (text_response 500 [])) example_client ''GET''
         ''/certificates/c1/download'' blob_options =
        Inl (CDNError \<lparr>message = ''Request failed'', code = JStr ''REQUEST_FAILED'',
               status = 500, details = JUndefined\<rparr>))
   \<and> (ok (blob_response 200 ''PK'')
     \<and> blob_result (blob_response 200 ''PK'') = Inr ''PK''
     \<and> request (answering (blob_response 200 ''PK'')) example_client ''GET''
         ''/certificates/c1/download'' blob_options = Inr (Blob ''PK''))"
  using binary_path [OF example_download_url example_answer blob_options_simps,
      of "text_response 404 ''Certificate not found''" "''GET''"]
    binary_path [OF example_download_url example_answer blob_options_simps,
      of "text_response 500 []" "''GET''"]
    binary_path [OF example_download_url example_answer blob_options_simps,
      of "blob_response 200 ''PK''" "''GET''"]
    example_download_url [of "text_response 404 ''Certificate not found''"]
  by (simp add: blob_options_simps ok_def text_response_def blob_response_def)

section \<open>Headers and body of the outgoing request\<close>

text \<open>
  Claim C9, as amended. The outgoing headers carry \<^verbatim>\<open>X-API-Key\<close> with the configured
  API key when the configured headers have no entry of that name; they carry every
  configured header, except a configured \<^verbatim>\<open>Content-Type\<close> when the body is truthy;
  \<^verbatim>\<open>Content-Type\<close> is \<^verbatim>\<open>application/json\<close> when the body is truthy, and is what
  the configured headers say when it is not.
\<close>

theorem outgoing_headers:
  "(customHeaders this ''X-API-Key'' = None \<longrightarrow>
      headers (fetchOptions this meth options) ''X-API-Key'' = Some (apiKey this))
   \<and> (\<forall>k v. customHeaders this k = Some v \<and> (k = ''Content-Type'' \<longrightarrow> \<not> truthy (body options))
         \<longrightarrow> headers (fetchOptions this meth options) k = Some v)
   \<and> (truthy (body options) \<longrightarrow>
         headers (fetchOptions this meth options) ''Content-Type'' = Some ''application/json'')
   \<and> (\<not> truthy (body options) \<longrightarrow>
         headers (fetchOptions this meth options) ''Content-Type''
           = customHeaders this ''Content-Type'')"
  by (auto simp: fetchOptions_def request_headers_def Let_def map_add_def split: option.splits)

lemma tracing_client_simps:
  "apiKey tracing_client = ''secret''"
  "customHeaders tracing_client = [''X-Trace'' \<mapsto> ''on'']"
  by (simp_all add: tracing_client_def new_HttpClient_def)

theorem outgoing_headers_witness:
  "customHeaders tracing_client ''X-API-Key'' = None
   \<and> customHeaders tracing_client ''X-Trace'' = Some ''on''
   \<and> truthy (body (no_options\<lparr>body := new_domain\<rparr>))
   \<and> \<not> truthy (body no_options)
   \<and> headers (fetchOptions tracing_client ''POST'' (no_options\<lparr>body := new_domain\<rparr>)) ''X-API-Key''
       = Some ''secret''
   \<and> headers (fetchOptions tracing_client ''POST'' (no_options\<lparr>body := new_domain\<rparr>)) ''X-Trace''
       = Some ''on''
   \<and> headers (fetchOptions tracing_client ''POST'' (no_options\<lparr>body := new_domain\<rparr>)) ''Content-Type''
       = Some ''application/json''
   \<and> headers (fetchOptions tracing_client ''GET'' no_options) ''Content-Type'' = None"
  using outgoing_headers [of tracing_client "''POST''" "no_options\<lparr>body := new_domain\<rparr>"]
    outgoing_headers [of tracing_client "''GET''" no_options]
  by (simp add: tracing_client_simps no_options_simps new_domain_def)

text \<open>
  Claim C9 as it is stated, regardless of the configured headers, does not hold: a
  configured header named \<^verbatim>\<open>X-API-Key\<close> replaces the credential, and a configured
  \<^verbatim>\<open>Content-Type\<close> is lost when a body is sent.
\<close>

theorem configured_header_replaces_credential:
  "headers (fetchOptions overriding_client ''POST'' (no_options\<lparr>body := new_domain\<rparr>)) ''X-API-Key''
     = Some ''other''
   \<and> apiKey overriding_client = ''secret''
   \<and> customHeaders overriding_client ''Content-Type'' = Some ''text/plain''
   \<and> headers (fetchOptions overriding_client ''POST'' (no_options\<lparr>body := new_domain\<rparr>)) ''Content-Type''
     = Some ''application/json''"
  by (simp add: fetchOptions_def request_headers_def overriding_client_def new_HttpClient_def
      no_options_def new_domain_def)

text \<open>
  Claim C10. A body that is 0, \<^verbatim>\<open>false\<close>, the empty string or \<^verbatim>\<open>null\<close> is treated
  as no body: the engine sets no content type (the headers are the credential and the
  configured headers), attaches no body, and the request is the one made with the
  body left out, also through \<^verbatim>\<open>post\<close>.
\<close>

theorem falsy_body_is_absent:
  assumes "b \<in> {JNum 0, JBool False, JStr [], JNull}"
  shows "headers (fetchOptions this meth (options\<lparr>body := b\<rparr>))
        = [''X-API-Key'' \<mapsto> apiKey this] ++ customHeaders this
    \<and> init_body (fetchOptions this meth (options\<lparr>body := b\<rparr>)) = None
    \<and> fetchOptions this meth (options\<lparr>body := b\<rparr>)
        = fetchOptions this meth (options\<lparr>body := JUndefined\<rparr>)
    \<and> request pf this meth path (options\<lparr>body := b\<rparr>)
        = request pf this meth path (options\<lparr>body := JUndefined\<rparr>)
    \<and> post pf this path b ps = post pf this path JUndefined ps"
proof -
  have falsy: "\<not> truthy b"
    using assms by auto
  have opts: "fetchOptions this m (o'\<lparr>body := b\<rparr>) = fetchOptions this m (o'\<lparr>body := JUndefined\<rparr>)"
    for m o'
    using falsy by (simp add: fetchOptions_def request_headers_def)
  have url: "request_url pf this path (o'\<lparr>body := v\<rparr>) = request_url pf this path o'" for o' v
    by (cases "new_URL pf (baseUrl this @ path)") (simp_all add: request_url_def)
  have blk: "try_block pf this u m (o'\<lparr>body := b\<rparr>) = try_block pf this u m (o'\<lparr>body := JUndefined\<rparr>)"
    for m o' u
    by (cases "fetch pf (href u) (fetchOptions this m (o'\<lparr>body := JUndefined\<rparr>))")
      (simp_all add: try_block_def opts)
  have req: "request pf this m path (o'\<lparr>body := b\<rparr>) = request pf this m path (o'\<lparr>body := JUndefined\<rparr>)"
    for m o'
    by (cases "request_url pf this path o'") (simp_all add: request_def url blk)
  have pst: "post pf this path b ps = post pf this path JUndefined ps"
    using req [of "''POST''" "no_options\<lparr>params := ps\<rparr>"]
    by (simp add: post_def no_options_def)
  have hdr: "headers (fetchOptions this meth (options\<lparr>body := b\<rparr>))
      = [''X-API-Key'' \<mapsto> apiKey this] ++ customHeaders this"
    and bdy: "init_body (fetchOptions this meth (options\<lparr>body := b\<rparr>)) = None"
    using falsy by (simp_all add: fetchOptions_def request_headers_def)
  from hdr bdy opts req pst show ?thesis
    by simp
qed

theorem falsy_body_is_absent_witness:
  "JNum 0 \<in> {JNum 0, JBool False, JStr [], JNull}
   \<and> headers (fetchOptions example_client ''POST'' (no_options\<lparr>body := JNum 0\<rparr>)) ''Content-Type'' = None
   \<and> init_body (fetchOptions example_client ''POST'' (no_options\<lparr>body := JNum 0\<rparr>)) = None
   \<and> post (answering (json_response 200 (Inr empty_list_envelope))) example_client ''/domains''
        (JNum 0) None
      = post (answering (json_response 200 (Inr empty_list_envelope))) example_client ''/domains''
        JUndefined None"
  using falsy_body_is_absent [of "JNum 0" example_client "''POST''" no_options
      "answering (json_response 200 (Inr empty_list_envelope))" "''/domains''" None]
  by (simp add: example_client_simps fetchOptions_def request_headers_def)

section \<open>Waiting for a certificate\<close>














end
